theory Spec2Isabelle
  imports Main "HOL-Library.Word"
begin

section \<open>The update value consumed by the filters\<close>

text \<open>
  The filters of \<^verbatim>\<open>filters/filter.go\<close> inspect a \<^verbatim>\<open>*tgo.Update\<close>. Go's \<^verbatim>\<open>int64\<close> is a
  64-bit word; the filters only ever compare identifiers for equality. Go strings are byte
  sequences, as is \<^typ>\<open>string\<close>.
\<close>

type_synonym int64 = "64 word"

text \<open>
  Modelled from the spec: the types \<^verbatim>\<open>tgo.User\<close>, \<^verbatim>\<open>tgo.Message\<close>, \<^verbatim>\<open>tgo.CallbackQuery\<close>,
  \<^verbatim>\<open>tgo.InlineQuery\<close> and \<^verbatim>\<open>tgo.Update\<close> are declared in the parent package \<^verbatim>\<open>tgo\<close>,
  outside \<^verbatim>\<open>filters/filter.go\<close>. The records carry the fields the filters read (Message has
  optional Text, Caption and From; CallbackQuery has Data and From; From has an integer
  ID); every further field lives in the record extension. A \<^verbatim>\<open>From\<close> field is a pointer
  (the Message branch of \<^verbatim>\<open>Whitelist\<close> compares it with \<^verbatim>\<open>nil\<close>), so it is an option.
\<close>

record User =
  User_Id :: int64

record Message =
  Message_From :: "User option"
  Message_Text :: string
  Message_Caption :: string

record CallbackQuery =
  CallbackQuery_From :: "User option"
  CallbackQuery_Data :: string

record InlineQuery =
  InlineQuery_Query :: string

text \<open>
  Modelled from the spec: an update is a tagged union over payload kinds, exactly one of
  them populated. \<open>Update_Other\<close> stands for every kind besides the three that the filters
  distinguish, \<open>Update_Empty\<close> for an update with no variant populated.
\<close>

datatype Update =
  Update_Message Message
| Update_CallbackQuery CallbackQuery
| Update_InlineQuery InlineQuery
| Update_Other
| Update_Empty

text \<open>
  The dynamic value of the \<^verbatim>\<open>any\<close> that \<^verbatim>\<open>ExtractUpdate\<close> returns, as the type switches
  of the filters see it.
\<close>

datatype payload =
  Payload_Message Message
| Payload_CallbackQuery CallbackQuery
| Payload_InlineQuery InlineQuery
| Payload_Other
| Payload_nil

text \<open>
  Modelled from the spec: \<^verbatim>\<open>ExtractUpdate\<close> is a function of the package that is defined
  outside \<^verbatim>\<open>filters/filter.go\<close>. It returns the single populated payload out of the update's
  tagged union, or a nil value if none is populated.
\<close>

fun ExtractUpdate :: "Update \<Rightarrow> payload" where
  "ExtractUpdate (Update_Message m) = Payload_Message m"
| "ExtractUpdate (Update_CallbackQuery q) = Payload_CallbackQuery q"
| "ExtractUpdate (Update_InlineQuery q) = Payload_InlineQuery q"
| "ExtractUpdate Update_Other = Payload_Other"
| "ExtractUpdate Update_Empty = Payload_nil"


section \<open>Filters\<close>

text \<open>
  A filter function returns a boolean or panics. The only panic the code of this file can
  raise by itself is the dereference of a nil pointer.
\<close>

datatype panic = NilPointerDereference

type_synonym FilterFunc = "Update \<Rightarrow> panic + bool"

datatype Filter = NewFilter FilterFunc

fun Check :: "Filter \<Rightarrow> Update \<Rightarrow> panic + bool" where
  "Check (NewFilter f) update = f update"

definition True_f :: Filter where
  "True_f = NewFilter (\<lambda>update. Inr True)"

definition False_f :: Filter where
  "False_f = NewFilter (\<lambda>update. Inr False)"

text \<open>
  The loops of \<^verbatim>\<open>Or\<close> and \<^verbatim>\<open>And\<close> run over the filters from left to right and return at
  the first filter that decides; a panic of a filter ends the loop as well.
\<close>

fun Or_loop :: "Filter list \<Rightarrow> Update \<Rightarrow> panic + bool" where
  "Or_loop [] update = Inr False"
| "Or_loop (flt # filters) update =
     (case Check flt update of
        Inl p \<Rightarrow> Inl p
      | Inr b \<Rightarrow> if b then Inr True else Or_loop filters update)"

definition Or :: "Filter list \<Rightarrow> Filter" where
  "Or filters = NewFilter (\<lambda>update. Or_loop filters update)"

fun And_loop :: "Filter list \<Rightarrow> Update \<Rightarrow> panic + bool" where
  "And_loop [] update = Inr True"
| "And_loop (flt # filters) update =
     (case Check flt update of
        Inl p \<Rightarrow> Inl p
      | Inr b \<Rightarrow> if \<not> b then Inr False else And_loop filters update)"

definition And :: "Filter list \<Rightarrow> Filter" where
  "And filters = NewFilter (\<lambda>update. And_loop filters update)"

definition Not_f :: "Filter \<Rightarrow> Filter" where
  "Not_f flt = NewFilter (\<lambda>update.
     case Check flt update of Inl p \<Rightarrow> Inl p | Inr b \<Rightarrow> Inr (\<not> b))"


subsection \<open>Sender lists\<close>

fun Whitelist_loop :: "int64 list \<Rightarrow> int64 \<Rightarrow> bool" where
  "Whitelist_loop [] senderID = False"
| "Whitelist_loop (i # IDs) senderID =
     (if i = senderID then True else Whitelist_loop IDs senderID)"

text \<open>
  \<^verbatim>\<open>senderID\<close> starts as the zero value. The Message branch assigns it under a nil guard,
  the CallbackQuery branch reads \<^verbatim>\<open>data.From.Id\<close> unguarded, every other dynamic type
  (nil included) returns false at once.
\<close>

definition Whitelist :: "int64 list \<Rightarrow> Filter" where
  "Whitelist IDs = NewFilter (\<lambda>update.
     case ExtractUpdate update of
       Payload_Message data \<Rightarrow>
         (let senderID = (case Message_From data of None \<Rightarrow> 0 | Some usr \<Rightarrow> User_Id usr)
          in Inr (Whitelist_loop IDs senderID))
     | Payload_CallbackQuery data \<Rightarrow>
         (case CallbackQuery_From data of
            None \<Rightarrow> Inl NilPointerDereference
          | Some usr \<Rightarrow> Inr (Whitelist_loop IDs (User_Id usr)))
     | _ \<Rightarrow> Inr False)"

definition Blacklist :: "int64 list \<Rightarrow> Filter" where
  "Blacklist IDs = Not_f (Whitelist IDs)"


subsection \<open>Commands\<close>

text \<open>Go's \<^verbatim>\<open>strings.HasPrefix(s, prefix)\<close>.\<close>

definition HasPrefix :: "string \<Rightarrow> string \<Rightarrow> bool" where
  "HasPrefix s prefix = (length prefix \<le> length s \<and> take (length prefix) s = prefix)"

text \<open>
  The first loop of \<^verbatim>\<open>Commands\<close> overwrites the entries of the slice it was given, one
  index after the other. The slice shares its array with the caller's, so its final
  contents are returned next to the filter. \<^verbatim>\<open>strings.ToLower\<close> belongs to Go's standard
  library and maps Unicode code points by the Unicode tables; it is a parameter here.
\<close>

function Commands_normalize ::
  "(string \<Rightarrow> string) \<Rightarrow> string \<Rightarrow> string list \<Rightarrow> nat \<Rightarrow> string list" where
  "Commands_normalize ToLower prefix cmds index =
     (if index < length cmds
      then Commands_normalize ToLower prefix
             (cmds[index := ToLower (prefix @ cmds ! index)]) (Suc index)
      else cmds)"
  by pat_completeness auto
termination
  by (relation "measure (\<lambda>(ToLower, prefix, cmds, index). length cmds - index)") auto

declare Commands_normalize.simps [simp del]

fun Commands_loop :: "string \<Rightarrow> string list \<Rightarrow> string \<Rightarrow> bool" where
  "Commands_loop botUsername [] text = False"
| "Commands_loop botUsername (cmd # cmds) text =
     (if text = cmd \<or> text = cmd @ botUsername \<or> HasPrefix text (cmd @ '' '')
         \<or> HasPrefix text (cmd @ botUsername @ '' '')
      then True
      else Commands_loop botUsername cmds text)"

definition Commands ::
  "(string \<Rightarrow> string) \<Rightarrow> string \<Rightarrow> string \<Rightarrow> string list \<Rightarrow> string list \<times> Filter" where
  "Commands ToLower prefix botUsername cmds =
     (let cmds' = Commands_normalize ToLower prefix cmds 0;
          botUsername' =
            (if \<not> HasPrefix botUsername ''@'' then ''@'' @ botUsername else botUsername)
      in (cmds',
          NewFilter (\<lambda>update.
            case ExtractUpdate update of
              Payload_Message msg \<Rightarrow>
                (let text = (if Message_Text msg = [] then Message_Caption msg
                             else Message_Text msg)
                 in Inr (Commands_loop botUsername' cmds' text))
            | _ \<Rightarrow> Inr False)))"

text \<open>
  \<^verbatim>\<open>Command\<close> passes \<^verbatim>\<open>cmd\<close> as the only variadic argument: the slice that \<^verbatim>\<open>Commands\<close>
  overwrites is a fresh one, of which only the filter is kept.
\<close>

definition Command :: "(string \<Rightarrow> string) \<Rightarrow> string \<Rightarrow> string \<Rightarrow> Filter" where
  "Command ToLower cmd botUsername = snd (Commands ToLower ''/'' botUsername [cmd])"

text \<open>
  The ASCII path of \<^verbatim>\<open>strings.ToLower\<close> (\<^verbatim>\<open>if 'A' <= c && c <= 'Z' { c += 'a' - 'A' }\<close>),
  which is what the library computes on a string of ASCII bytes. It instantiates the
  parameter in the concrete examples.
\<close>

definition ToLower_ASCII :: "string \<Rightarrow> string" where
  "ToLower_ASCII s =
     map (\<lambda>c. let n = (of_char c :: nat) in if 65 \<le> n \<and> n \<le> 90 then char_of (n + 32) else c) s"

text \<open>A message that carries a text and nothing else, for the concrete examples.\<close>

definition text_message :: "string \<Rightarrow> Update" where
  "text_message text =
     Update_Message \<lparr>Message_From = None, Message_Text = text, Message_Caption = []\<rparr>"


section \<open>The combinator algebra\<close>

lemma Check_Not_f: "Check (Not_f flt) update = map_sum id Not (Check flt update)"
  by (cases "Check flt update") (simp_all add: Not_f_def)

text \<open>
  Claim C5. A conjunction of no filters accepts every update, a disjunction of no filters
  rejects every update.
\<close>

theorem And_Or_no_filters:
  "Check (And []) update = Inr True \<and> Check (Or []) update = Inr False"
  by (simp add: And_def Or_def)

text \<open>
  Claim C6. De Morgan's law: on every update, the conjunction of two filters gives what
  the negation of the disjunction of their negations gives. It holds for panics as well:
  both sides ask \<open>f1\<close> first, and \<open>f2\<close> only if \<open>f1\<close> has accepted.
\<close>

theorem And_De_Morgan:
  "Check (And [f1, f2]) update = Check (Not_f (Or [Not_f f1, Not_f f2])) update"
proof (cases "Check f1 update")
  case (Inl p)
  then show ?thesis
    by (simp add: And_def Or_def Check_Not_f)
next
  case f1: (Inr b1)
  show ?thesis
  proof (cases "Check f2 update")
    case (Inl p)
    with f1 show ?thesis
      by (simp add: And_def Or_def Check_Not_f)
  next
    case (Inr b2)
    with f1 show ?thesis
      by (simp add: And_def Or_def Check_Not_f)
  qed
qed

text \<open>
  Claim C7. Negating a filter twice gives a filter that answers every update as the
  filter itself does.
\<close>

theorem Not_f_Not_f:
  "Check (Not_f (Not_f f)) update = Check f update"
  by (cases "Check f update") (simp_all add: Check_Not_f)

section \<open>Sender lists\<close>

lemma Whitelist_loop_iff: "Whitelist_loop IDs senderID \<longleftrightarrow> senderID \<in> set IDs"
  by (induction IDs) auto

lemma Check_Whitelist_Message:
  "Check (Whitelist IDs) (Update_Message msg) =
     Inr ((case Message_From msg of None \<Rightarrow> 0 | Some usr \<Rightarrow> User_Id usr) \<in> set IDs)"
  by (simp add: Whitelist_def Whitelist_loop_iff)

lemma Check_Whitelist_CallbackQuery:
  "Check (Whitelist IDs) (Update_CallbackQuery q) =
     (case CallbackQuery_From q of
        None \<Rightarrow> Inl NilPointerDereference
      | Some usr \<Rightarrow> Inr (User_Id usr \<in> set IDs))"
  by (simp add: Whitelist_def Whitelist_loop_iff split: option.split)

lemma Check_Whitelist_other:
  "Check (Whitelist IDs) (Update_InlineQuery q) = Inr False"
  "Check (Whitelist IDs) Update_Other = Inr False"
  "Check (Whitelist IDs) Update_Empty = Inr False"
  by (simp_all add: Whitelist_def)

lemma Check_Blacklist:
  "Check (Blacklist IDs) update = map_sum id Not (Check (Whitelist IDs) update)"
  by (simp add: Blacklist_def Check_Not_f)

text \<open>
  What does hold for an update without a sender: an update of a kind other than Message
  and CallbackQuery is rejected by every whitelist, and a Message without \<^verbatim>\<open>From\<close> is
  rejected by every whitelist that does not list the ID 0.
\<close>

lemma Whitelist_senderless:
  "Check (Whitelist IDs) (Update_InlineQuery q) = Inr False"
  "Check (Whitelist IDs) Update_Other = Inr False"
  "Check (Whitelist IDs) Update_Empty = Inr False"
  "Message_From msg = None \<Longrightarrow> 0 \<notin> set IDs \<Longrightarrow>
     Check (Whitelist IDs) (Update_Message msg) = Inr False"
  by (simp_all add: Check_Whitelist_other Check_Whitelist_Message)

text \<open>
  Claim C1 says that a whitelist rejects every update without a resolvable sender,
  whichever IDs it lists, 0 included. The code does otherwise on a Message without
  \<^verbatim>\<open>From\<close>: \<^verbatim>\<open>senderID\<close> keeps its zero value and the loop over the IDs still runs, so
  \<^verbatim>\<open>Whitelist(0)\<close> accepts the message.
\<close>

theorem Whitelist_zero_accepts_Message_without_From:
  "Check (Whitelist [0])
     (Update_Message \<lparr>Message_From = None, Message_Text = ''hi'', Message_Caption = []\<rparr>)
   = Inr True"
  by (simp add: Check_Whitelist_Message)

text \<open>
  Claim C3 says that a blacklist answers with the negation of the whitelist's answer and
  therefore accepts every update without a resolvable sender. The first half is
  \<open>Check_Blacklist\<close>. The second half fails where claim C1 fails: \<^verbatim>\<open>Blacklist(0, 1)\<close>
  rejects a Message without \<^verbatim>\<open>From\<close>.
\<close>

theorem Blacklist_zero_rejects_Message_without_From:
  "Check (Blacklist [0, 1])
     (Update_Message \<lparr>Message_From = None, Message_Text = ''hi'', Message_Caption = []\<rparr>)
   = Inr False"
  by (simp add: Check_Blacklist Check_Whitelist_Message)

text \<open>
  Claim C9. A whitelist that lists the ID 0 accepts a Message whose \<^verbatim>\<open>From\<close> is absent:
  the absent sender counts as the ID 0, and the message is answered exactly as the same
  message sent by a user with ID 0 is.
\<close>

theorem Whitelist_absent_From_is_zero:
  assumes "0 \<in> set IDs" and "Message_From msg = None"
  shows "Check (Whitelist IDs) (Update_Message msg) = Inr True
       \<and> Check (Whitelist IDs) (Update_Message msg) =
           Check (Whitelist IDs) (Update_Message (msg\<lparr>Message_From := Some \<lparr>User_Id = 0\<rparr>\<rparr>))"
  using assms by (simp add: Check_Whitelist_Message)

theorem Whitelist_absent_From_is_zero_witness:
  "Check (Whitelist [7, 0])
     (Update_Message \<lparr>Message_From = None, Message_Text = ''hello'', Message_Caption = []\<rparr>)
   = Inr True"
  using Whitelist_absent_From_is_zero [of "[7, 0]"
      "\<lparr>Message_From = None, Message_Text = ''hello'', Message_Caption = []\<rparr>"]
  by simp

text \<open>
  Claim C10. On a CallbackQuery whose \<^verbatim>\<open>From\<close> is nil the whitelist dereferences a nil
  pointer, since that branch has no guard. On an update that is not such a CallbackQuery
  the check returns a boolean: if every CallbackQuery carries a \<^verbatim>\<open>From\<close>, the panic is
  unreachable.
\<close>

theorem Whitelist_CallbackQuery_nil_From:
  "(CallbackQuery_From q = None \<longrightarrow>
      Check (Whitelist IDs) (Update_CallbackQuery q) = Inl NilPointerDereference)
   \<and> ((\<forall>q. update = Update_CallbackQuery q \<longrightarrow> CallbackQuery_From q \<noteq> None) \<longrightarrow>
      (\<exists>b. Check (Whitelist IDs) update = Inr b))"
proof (intro conjI impI)
  assume "CallbackQuery_From q = None"
  then show "Check (Whitelist IDs) (Update_CallbackQuery q) = Inl NilPointerDereference"
    by (simp add: Check_Whitelist_CallbackQuery)
next
  assume guard: "\<forall>q. update = Update_CallbackQuery q \<longrightarrow> CallbackQuery_From q \<noteq> None"
  show "\<exists>b. Check (Whitelist IDs) update = Inr b"
  proof (cases update)
    case (Update_CallbackQuery q)
    with guard obtain usr where "CallbackQuery_From q = Some usr"
      by auto
    with Update_CallbackQuery show ?thesis
      by (simp add: Check_Whitelist_CallbackQuery)
  qed (auto simp add: Check_Whitelist_Message Check_Whitelist_other)
qed

theorem Whitelist_CallbackQuery_nil_From_witness:
  "Check (Whitelist [1, 2, 3])
     (Update_CallbackQuery \<lparr>CallbackQuery_From = None, CallbackQuery_Data = ''ok''\<rparr>)
     = Inl NilPointerDereference
   \<and> (\<exists>b. Check (Whitelist [1, 2, 3])
       (Update_CallbackQuery
          \<lparr>CallbackQuery_From = Some \<lparr>User_Id = 2\<rparr>, CallbackQuery_Data = ''ok''\<rparr>) = Inr b)"
  using Whitelist_CallbackQuery_nil_From
      [of "\<lparr>CallbackQuery_From = None, CallbackQuery_Data = ''ok''\<rparr>" "[1, 2, 3]"
        "Update_CallbackQuery
           \<lparr>CallbackQuery_From = Some \<lparr>User_Id = 2\<rparr>, CallbackQuery_Data = ''ok''\<rparr>"]
  by simp


section \<open>Commands\<close>

lemma HasPrefix_iff: "HasPrefix s prefix \<longleftrightarrow> (\<exists>rest. s = prefix @ rest)"
  unfolding HasPrefix_def
proof
  assume "length prefix \<le> length s \<and> take (length prefix) s = prefix"
  then have "s = prefix @ drop (length prefix) s"
    by (metis append_take_drop_id)
  then show "\<exists>rest. s = prefix @ rest" ..
next
  assume "\<exists>rest. s = prefix @ rest"
  then show "length prefix \<le> length s \<and> take (length prefix) s = prefix"
    by auto
qed

text \<open>
  The loop invariant of the normalisation: when the loop is at \<open>index\<close>, the entries
  before it are final and the entries from it on are still to be rewritten.
\<close>

lemma Commands_normalize_eq:
  "Commands_normalize ToLower prefix cmds index =
     take index cmds @ map (\<lambda>command. ToLower (prefix @ command)) (drop index cmds)"
proof (induction ToLower prefix cmds index rule: Commands_normalize.induct)
  case (1 ToLower prefix cmds index)
  let ?cmds' = "cmds[index := ToLower (prefix @ cmds ! index)]"
  show ?case
  proof (cases "index < length cmds")
    case True
    have "Commands_normalize ToLower prefix cmds index =
          Commands_normalize ToLower prefix ?cmds' (Suc index)"
      using True by (subst Commands_normalize.simps) simp
    also have "\<dots> = take (Suc index) ?cmds' @
          map (\<lambda>command. ToLower (prefix @ command)) (drop (Suc index) ?cmds')"
      using "1.IH" [OF True] .
    also have "\<dots> =
          take index cmds @ map (\<lambda>command. ToLower (prefix @ command)) (drop index cmds)"
      using True by (simp add: take_Suc_conv_app_nth Cons_nth_drop_Suc [symmetric])
    finally show ?thesis .
  next
    case False
    then show ?thesis
      by (subst Commands_normalize.simps) simp
  qed
qed

lemma Commands_normalize_0:
  "Commands_normalize ToLower prefix cmds 0 =
     map (\<lambda>command. ToLower (prefix @ command)) cmds"
  by (simp add: Commands_normalize_eq)

lemma Commands_loop_iff:
  "Commands_loop botUsername cmds text \<longleftrightarrow>
     (\<exists>cmd \<in> set cmds. text = cmd \<or> text = cmd @ botUsername
        \<or> (\<exists>rest. text = cmd @ '' '' @ rest)
        \<or> (\<exists>rest. text = cmd @ botUsername @ '' '' @ rest))"
  by (induction cmds) (auto simp: HasPrefix_iff)

lemma Check_snd_Commands:
  "Check (snd (Commands ToLower prefix botUsername cmds)) update =
     (case update of
        Update_Message msg \<Rightarrow>
          Inr (Commands_loop
                 (if HasPrefix botUsername ''@'' then botUsername else ''@'' @ botUsername)
                 (map (\<lambda>command. ToLower (prefix @ command)) cmds)
                 (if Message_Text msg = [] then Message_Caption msg else Message_Text msg))
      | _ \<Rightarrow> Inr False)"
  by (cases update) (simp_all add: Commands_def Let_def Commands_normalize_0)

lemma ToLower_ASCII_Start: "ToLower_ASCII ''/Start'' = ''/start''"
  by code_simp

lemma ToLower_ASCII_start: "ToLower_ASCII ''/start'' = ''/start''"
  by code_simp

text \<open>
  Claim C2. The filter built by \<^verbatim>\<open>Commands\<close> accepts an update exactly when the update is
  a Message whose text (the caption, when the text is empty) equals a normalised command,
  or the command followed by the bot's username, or starts with one of the two followed by
  a space; it rejects every update that is not a Message. A normalised command is the
  lower-cased \<^verbatim>\<open>prefix+name\<close>, and the username is the one with its leading \<^verbatim>\<open>@\<close>.
\<close>

theorem Commands_Check:
  "Check (snd (Commands ToLower prefix botUsername cmds)) update =
     Inr (\<exists>msg. update = Update_Message msg \<and>
           (let text = (if Message_Text msg = [] then Message_Caption msg else Message_Text msg);
                username = (if \<exists>rest. botUsername = ''@'' @ rest then botUsername
                            else ''@'' @ botUsername)
            in \<exists>command \<in> set cmds.
                 let cmd = ToLower (prefix @ command)
                 in text = cmd \<or> text = cmd @ username
                    \<or> (\<exists>rest. text = cmd @ '' '' @ rest)
                    \<or> (\<exists>rest. text = cmd @ username @ '' '' @ rest)))
   \<and> ((\<forall>msg. update \<noteq> Update_Message msg) \<longrightarrow>
        Check (snd (Commands ToLower prefix botUsername cmds)) update = Inr False)"
  by (cases update) (simp_all add: Check_snd_Commands Commands_loop_iff HasPrefix_iff Let_def)

theorem Commands_Check_witness:
  "Check (snd (Commands ToLower_ASCII ''/'' ''mybot'' [''Start'']))
     (Update_Message
        \<lparr>Message_From = None, Message_Text = ''/start@mybot 42'', Message_Caption = []\<rparr>)
     = Inr True
   \<and> Check (snd (Commands ToLower_ASCII ''/'' ''mybot'' [''Start'']))
       (Update_InlineQuery \<lparr>InlineQuery_Query = ''/start''\<rparr>) = Inr False"
  using Commands_Check [of ToLower_ASCII "''/''" "''mybot''" "[''Start'']"
      "Update_Message
         \<lparr>Message_From = None, Message_Text = ''/start@mybot 42'', Message_Caption = []\<rparr>"]
    Commands_Check [of ToLower_ASCII "''/''" "''mybot''" "[''Start'']"
      "Update_InlineQuery \<lparr>InlineQuery_Query = ''/start''\<rparr>"]
  by (simp add: ToLower_ASCII_Start)

text \<open>
  Claim C4. Building the filter overwrites the slice of commands it was given: after the
  call, every entry is the lower-casing of the prefix followed by the entry's former
  value. The slice is the only state the construction returns changed, and checking an
  update against the filter returns a boolean and no state.
\<close>

theorem Commands_overwrites_cmds:
  "fst (Commands ToLower prefix botUsername cmds) =
     map (\<lambda>command. ToLower (prefix @ command)) cmds"
  by (simp add: Commands_def Let_def Commands_normalize_0)

theorem Commands_overwrites_cmds_witness:
  "fst (Commands ToLower_ASCII ''/'' ''mybot'' [''Start'']) = [''/start'']"
  using Commands_overwrites_cmds [of ToLower_ASCII "''/''" "''mybot''" "[''Start'']"]
  by (simp add: ToLower_ASCII_Start)

text \<open>
  Claim C8. \<^verbatim>\<open>Command(name, botUsername)\<close> answers every update as the filter of
  \<^verbatim>\<open>Commands("/", botUsername, name)\<close> does.
\<close>

theorem Command_Commands:
  "Check (Command ToLower name botUsername) update =
     Check (snd (Commands ToLower ''/'' botUsername [name])) update"
  by (simp add: Command_def)

theorem Command_Commands_witness:
  "Check (Command ToLower_ASCII ''start'' ''mybot'') (text_message ''/start'') = Inr True
   \<and> Check (Command ToLower_ASCII ''start'' ''mybot'') (text_message ''/start@mybot'') = Inr True
   \<and> Check (Command ToLower_ASCII ''start'' ''mybot'') (text_message ''/start 42'') = Inr True
   \<and> Check (Command ToLower_ASCII ''start'' ''mybot'') (text_message ''/start@mybot 42'')
       = Inr True
   \<and> Check (Command ToLower_ASCII ''start'' ''mybot'') (text_message ''/started'') = Inr False
   \<and> Check (Command ToLower_ASCII ''start'' ''mybot'') (text_message ''start'') = Inr False"
  by (simp add: Command_Commands Check_snd_Commands ToLower_ASCII_start HasPrefix_def
      text_message_def)

end
